theory Spec2Isabelle
  imports Complex_Main "HOL-Library.Word"
begin

unbundle bit_operations_syntax

section \<open>Hardware quirk detection (system/hwquirks.c)\<close>

subsection \<open>Constants of the missing headers\<close>

text \<open>
  hwquirks.c includes hwquirks.h, pci.h, cpuid.h, config.h and temperature.h, none of
  which is part of the sources at hand.  The macros and enumerators it takes from them
  are the fields of one record that every function below receives as \<open>K\<close>; no value is
  fixed for any of them.  The enumeration of quirk identifiers is a datatype whose
  constructors are the enumerators that hwquirks.c names.
\<close>

record header =
  PCI_VID_REG :: nat
  PCI_DID_REG :: nat
  PCI_SUB_VID_REG :: nat
  PCI_SUB_DID_REG :: nat
  PCI_VID_ALI :: "16 word"
  PCI_VID_INTEL :: "16 word"
  PCI_VID_ASUS :: "16 word"
  PCI_VID_SUPERMICRO :: "16 word"
  AMD_TEMP_REG_K8 :: nat
  IMC_ADL_N :: int
  QUIRK_TYPE_NONE :: "8 word"
  QUIRK_TYPE_MEM_SIZE :: "8 word"
  QUIRK_TYPE_SMBUS :: "8 word"
  QUIRK_TYPE_SMP :: "8 word"
  QUIRK_TYPE_TEMP :: "8 word"

datatype quirk_id_t =
    QUIRK_NONE
  | QUIRK_ALI_ALADDIN_V
  | QUIRK_TUSL2
  | QUIRK_X10SDV_NOSMP
  | QUIRK_K8_BSTEP_NOTEMP
  | QUIRK_K8_REVFG_TEMP
  | QUIRK_AMD_ERRATA_319
  | QUIRK_ADL_SMB_UNLOCK

subsection \<open>Data\<close>

text \<open>
  \<open>quirk.process\<close> is a pointer to one of the five static functions of the file, or
  NULL: \<open>None\<close> is NULL, \<open>Some f\<close> the address of \<open>f\<close>.
\<close>

datatype action =
    FN_get_m1541_l2_cache_size
  | FN_asus_tusl2_configure_mux
  | FN_disable_temp_reporting
  | FN_amd_k8_revfg_temp
  | FN_adl_unlock_smbus

text \<open>
  The struct \<open>quirk_t\<close>; its fields \<open>id\<close> and \<open>type\<close> are \<open>q_id\<close> and \<open>q_type\<close>
  here (\<open>id\<close> is the identity function of HOL).
\<close>

record quirk_t =
  q_id :: quirk_id_t
  q_type :: "8 word"
  root_vid :: "16 word"
  root_did :: "16 word"
  process :: "action option"

text \<open>
  The fields of \<open>cpuid_info\<close> that the file reads.  \<open>vendor_id.str\<close> is a character
  array, the numeric fields of \<open>version\<close> are unsigned, \<open>extendedBrandID\<close> is the 32-bit
  register value that the file shifts and masks.
\<close>

record cpuid_version_t =
  stepping :: nat
  model :: nat
  family :: nat
  extendedModel :: nat
  extendedFamily :: nat
  extendedBrandID :: "32 word"

record cpuid_info_t =
  vendor_id_str :: string
  version :: cpuid_version_t

text \<open>\<open>str[0]\<close>: the first character of the array, NUL when the text is empty.\<close>

definition str0 :: "string \<Rightarrow> char" where
  "str0 s = (case s of [] \<Rightarrow> CHR 0x00 | c # _ \<Rightarrow> c)"

text \<open>
  Every access to the hardware is an event, in program order.  The port and
  configuration-space primitives (io.h, pci.h, unistd.h) are external: a read returns
  what the platform answers, a write and a delay are recorded only.
\<close>

datatype event =
    PciRead8 nat nat nat nat
  | PciRead16 nat nat nat nat
  | PciRead32 nat nat nat nat
  | PciWrite8 nat nat nat nat "8 word"
  | PciWrite16 nat nat nat nat "16 word"
  | Outb "8 word" "16 word"
  | LpcOutb "8 word" "8 word"
  | LpcInb "8 word"
  | Usleep nat

text \<open>
  The platform: what each read returns, by bus, device, function and register (by
  register for the LPC bus).  No function of the file reads one register twice, so a
  platform is any assignment of answers to the reads.
\<close>

record hardware =
  cfg8 :: "nat \<Rightarrow> nat \<Rightarrow> nat \<Rightarrow> nat \<Rightarrow> 8 word"
  cfg16 :: "nat \<Rightarrow> nat \<Rightarrow> nat \<Rightarrow> nat \<Rightarrow> 16 word"
  cfg32 :: "nat \<Rightarrow> nat \<Rightarrow> nat \<Rightarrow> nat \<Rightarrow> 32 word"
  lpc_reg :: "8 word \<Rightarrow> 8 word"

text \<open>
  The globals that the file writes: \<open>quirk\<close>, and \<open>l2_cache\<close>, \<open>enable_temperature\<close>
  and \<open>cpu_temp_offset\<close> of other modules; with them the events so far.
  \<open>cpu_temp_offset\<close> is a float that is only ever assigned the literal 21.0f.
\<close>

record machine =
  quirk :: quirk_t
  l2_cache :: int
  enable_temperature :: bool
  cpu_temp_offset :: real
  trace :: "event list"

subsection \<open>External primitives\<close>

definition emit :: "event \<Rightarrow> machine \<Rightarrow> machine" where
  "emit e s = s\<lparr>trace := trace s @ [e]\<rparr>"

definition outb :: "8 word \<Rightarrow> 16 word \<Rightarrow> machine \<Rightarrow> machine" where
  "outb v port s = emit (Outb v port) s"

definition usleep :: "nat \<Rightarrow> machine \<Rightarrow> machine" where
  "usleep usec s = emit (Usleep usec) s"

definition lpc_outb :: "8 word \<Rightarrow> 8 word \<Rightarrow> machine \<Rightarrow> machine" where
  "lpc_outb a b s = emit (LpcOutb a b) s"

definition lpc_inb :: "hardware \<Rightarrow> 8 word \<Rightarrow> machine \<Rightarrow> 8 word \<times> machine" where
  "lpc_inb hw reg s = (lpc_reg hw reg, emit (LpcInb reg) s)"

definition pci_config_read8 ::
  "hardware \<Rightarrow> nat \<Rightarrow> nat \<Rightarrow> nat \<Rightarrow> nat \<Rightarrow> machine \<Rightarrow> 8 word \<times> machine" where
  "pci_config_read8 hw bus dev func reg s =
     (cfg8 hw bus dev func reg, emit (PciRead8 bus dev func reg) s)"

definition pci_config_read16 ::
  "hardware \<Rightarrow> nat \<Rightarrow> nat \<Rightarrow> nat \<Rightarrow> nat \<Rightarrow> machine \<Rightarrow> 16 word \<times> machine" where
  "pci_config_read16 hw bus dev func reg s =
     (cfg16 hw bus dev func reg, emit (PciRead16 bus dev func reg) s)"

definition pci_config_read32 ::
  "hardware \<Rightarrow> nat \<Rightarrow> nat \<Rightarrow> nat \<Rightarrow> nat \<Rightarrow> machine \<Rightarrow> 32 word \<times> machine" where
  "pci_config_read32 hw bus dev func reg s =
     (cfg32 hw bus dev func reg, emit (PciRead32 bus dev func reg) s)"

definition pci_config_write8 ::
  "nat \<Rightarrow> nat \<Rightarrow> nat \<Rightarrow> nat \<Rightarrow> 8 word \<Rightarrow> machine \<Rightarrow> machine" where
  "pci_config_write8 bus dev func reg v s = emit (PciWrite8 bus dev func reg v) s"

definition pci_config_write16 ::
  "nat \<Rightarrow> nat \<Rightarrow> nat \<Rightarrow> nat \<Rightarrow> 16 word \<Rightarrow> machine \<Rightarrow> machine" where
  "pci_config_write16 bus dev func reg v s = emit (PciWrite16 bus dev func reg v) s"

subsection \<open>Private quirk-specific functions\<close>

definition asus_tusl2_configure_mux :: "hardware \<Rightarrow> machine \<Rightarrow> machine" where
  "asus_tusl2_configure_mux hw s =
     (let s1 = outb 0x87 0x2E s;
          s2 = outb 0x87 0x2E s1;
          s3 = usleep 200 s2;
          s4 = lpc_outb 0x7 0x8 s3;
          (muxreg, s5) = lpc_inb hw 0xF1 s4;
          muxreg1 = muxreg AND 0xE7;
          muxreg2 = muxreg1 OR 0x10;
          s6 = lpc_outb 0xF1 muxreg2 s5;
          s7 = usleep 200 s6
      in outb 0xAA 0x2E s7)"

definition get_m1541_l2_cache_size :: "hardware \<Rightarrow> machine \<Rightarrow> machine" where
  "get_m1541_l2_cache_size hw s =
     (if l2_cache s \<noteq> 0 then s
      else
        let (en, s1) = pci_config_read8 hw 0 0 0 0x42 s in
        if en AND 1 = 0 then s1
        else
          let (r, s2) = pci_config_read8 hw 0 0 0 0x41 s1;
              reg = drop_bit 2 r AND 3;
              s3 = (if reg = 0 then s2\<lparr>l2_cache := 256\<rparr> else s2);
              s4 = (if reg = 1 then s3\<lparr>l2_cache := 512\<rparr> else s3)
          in (if reg = 2 then s4\<lparr>l2_cache := 1024\<rparr> else s4))"

definition disable_temp_reporting :: "machine \<Rightarrow> machine" where
  "disable_temp_reporting s = s\<lparr>enable_temperature := False\<rparr>"

text \<open>
  \<open>pci_config_write8\<close> takes a byte: the 32-bit \<open>rtcr | 0x04\<close> is cut to its low 8 bits.
  The two tests on \<open>extendedModel\<close> are the source's, joined by \<open>&&\<close> as written there.
\<close>

definition amd_k8_revfg_temp ::
  "header \<Rightarrow> hardware \<Rightarrow> cpuid_info_t \<Rightarrow> machine \<Rightarrow> machine" where
  "amd_k8_revfg_temp K hw cpuid_info s =
     (let (rtcr, s1) = pci_config_read32 hw 0 24 3 (AMD_TEMP_REG_K8 K) s;
          s2 = (if drop_bit 16 rtcr AND 0xFF = 0
                then pci_config_write8 0 24 3 (AMD_TEMP_REG_K8 K) (ucast (rtcr OR 0x04)) s1
                else s1)
      in
      if extendedModel (version cpuid_info) < 6 \<and> extendedModel (version cpuid_info) > 7
      then s2
      else if extendedModel (version cpuid_info) = 6 \<and> extendedModel (version cpuid_info) < 9
      then s2
      else
        let brandID = (ucast (drop_bit 9 (extendedBrandID (version cpuid_info)) AND 0x1f)
                        :: 16 word)
        in
        if model (version cpuid_info) = 0xF \<and> (brandID = 0x7 \<or> brandID = 0x9 \<or> brandID = 0xC)
        then s2
        else if model (version cpuid_info) = 0xB \<and> brandID > 0xB
        then s2
        else s2\<lparr>cpu_temp_offset := 21\<rparr>)"

definition adl_unlock_smbus :: "hardware \<Rightarrow> machine \<Rightarrow> machine" where
  "adl_unlock_smbus hw s =
     (let (x, s1) = pci_config_read16 hw 0 31 4 0x04 s
      in if x AND 1 = 0 then pci_config_write16 0 31 4 0x04 (x OR 1) s1 else s1)"

text \<open>Calling through \<open>quirk.process\<close>, as the rest of the program does.\<close>

fun call :: "header \<Rightarrow> hardware \<Rightarrow> cpuid_info_t \<Rightarrow> action \<Rightarrow> machine \<Rightarrow> machine" where
  "call K hw cpuid_info FN_get_m1541_l2_cache_size s = get_m1541_l2_cache_size hw s"
| "call K hw cpuid_info FN_asus_tusl2_configure_mux s = asus_tusl2_configure_mux hw s"
| "call K hw cpuid_info FN_disable_temp_reporting s = disable_temp_reporting s"
| "call K hw cpuid_info FN_amd_k8_revfg_temp s = amd_k8_revfg_temp K hw cpuid_info s"
| "call K hw cpuid_info FN_adl_unlock_smbus s = adl_unlock_smbus hw s"

subsection \<open>The public function\<close>

text \<open>
  \<open>quirks_init\<close> is one body: five assignments, then seven blocks one after the other.
  Each block is a definition named after the comment that heads it in the source;
  \<open>quirks_init\<close> runs them in the source's order.  \<open>&&\<close> evaluates its right operand only
  when the left one holds, so a read on the right of \<open>&&\<close> or inside an \<open>if\<close> is an event
  only then.
  \<^item> \<open>quirks_reset\<close>: lines 117 to 121, the five assignments;
  \<^item> \<open>ali_aladdin_v_quirk\<close>: lines 128 to 132, ALi Aladdin V Quirk;
  \<^item> \<open>asus_tusl2_c_quirk\<close>: lines 140 to 148, ASUS TUSL2-C Quirk;
  \<^item> \<open>supermicro_x10sdv_quirk\<close>: lines 155 to 161, SuperMicro X10SDV Quirk;
  \<^item> \<open>early_k8_quirk\<close>: lines 167 to 175, Early AMD K8;
  \<^item> \<open>late_k8_quirk\<close>: lines 180 to 186, Late AMD K8 (rev F/G);
  \<^item> \<open>amd_k10_quirk\<close>: lines 193 to 210, AMD K10 CPUs Temp workaround;
  \<^item> \<open>adl_n_quirk\<close>: lines 215 to 219, SMBus unlock for ADL-N.
\<close>

definition quirks_reset :: "header \<Rightarrow> hardware \<Rightarrow> machine \<Rightarrow> machine" where
  "quirks_reset K hw s =
     (let s1 = s\<lparr>quirk := (quirk s)\<lparr>q_id := QUIRK_NONE\<rparr>\<rparr>;
          s2 = s1\<lparr>quirk := (quirk s1)\<lparr>q_type := QUIRK_TYPE_NONE K\<rparr>\<rparr>;
          (vid, s3) = pci_config_read16 hw 0 0 0 (PCI_VID_REG K) s2;
          s4 = s3\<lparr>quirk := (quirk s3)\<lparr>root_vid := vid\<rparr>\<rparr>;
          (did, s5) = pci_config_read16 hw 0 0 0 (PCI_DID_REG K) s4;
          s6 = s5\<lparr>quirk := (quirk s5)\<lparr>root_did := did\<rparr>\<rparr>
      in s6\<lparr>quirk := (quirk s6)\<lparr>process := None\<rparr>\<rparr>)"

definition ali_aladdin_v_quirk :: "header \<Rightarrow> machine \<Rightarrow> machine" where
  "ali_aladdin_v_quirk K s =
     (if root_vid (quirk s) = PCI_VID_ALI K \<and> root_did (quirk s) = 0x1541
      then s\<lparr>quirk := (quirk s)\<lparr>q_id := QUIRK_ALI_ALADDIN_V,
                                 q_type := q_type (quirk s) OR QUIRK_TYPE_MEM_SIZE K,
                                 process := Some FN_get_m1541_l2_cache_size\<rparr>\<rparr>
      else s)"

definition asus_tusl2_c_quirk :: "header \<Rightarrow> hardware \<Rightarrow> machine \<Rightarrow> machine" where
  "asus_tusl2_c_quirk K hw s =
     (if root_vid (quirk s) = PCI_VID_INTEL K \<and> root_did (quirk s) = 0x1130
      then
        let (svid, s1) = pci_config_read16 hw 0 0 0 (PCI_SUB_VID_REG K) s in
        if svid = PCI_VID_ASUS K
        then
          let (sdid, s2) = pci_config_read16 hw 0 0 0 (PCI_SUB_DID_REG K) s1 in
          if sdid = 0x8027
          then s2\<lparr>quirk := (quirk s2)\<lparr>q_id := QUIRK_TUSL2,
                                       q_type := q_type (quirk s2) OR QUIRK_TYPE_SMBUS K,
                                       process := Some FN_asus_tusl2_configure_mux\<rparr>\<rparr>
          else s2
        else s1
      else s)"

definition supermicro_x10sdv_quirk :: "header \<Rightarrow> hardware \<Rightarrow> machine \<Rightarrow> machine" where
  "supermicro_x10sdv_quirk K hw s =
     (if root_vid (quirk s) = PCI_VID_INTEL K \<and> root_did (quirk s) = 0x6F00
      then
        let (svid, s1) = pci_config_read16 hw 0 0 0 (PCI_SUB_VID_REG K) s in
        if svid = PCI_VID_SUPERMICRO K
        then s1\<lparr>quirk := (quirk s1)\<lparr>q_id := QUIRK_X10SDV_NOSMP,
                                     q_type := q_type (quirk s1) OR QUIRK_TYPE_SMP K,
                                     process := None\<rparr>\<rparr>
        else s1
      else s)"

definition early_k8_quirk :: "header \<Rightarrow> cpuid_info_t \<Rightarrow> machine \<Rightarrow> machine" where
  "early_k8_quirk K cpuid_info s =
     (if str0 (vendor_id_str cpuid_info) = CHR ''A'' \<and> family (version cpuid_info) = 0xF
         \<and> extendedFamily (version cpuid_info) = 0 \<and> extendedModel (version cpuid_info) = 0
      then
        if (model (version cpuid_info) = 4 \<and> stepping (version cpuid_info) = 0) \<or>
           (model (version cpuid_info) = 5 \<and> stepping (version cpuid_info) \<le> 1)
        then s\<lparr>quirk := (quirk s)\<lparr>q_id := QUIRK_K8_BSTEP_NOTEMP,
                                   q_type := q_type (quirk s) OR QUIRK_TYPE_TEMP K,
                                   process := Some FN_disable_temp_reporting\<rparr>\<rparr>
        else s
      else s)"

definition late_k8_quirk :: "header \<Rightarrow> cpuid_info_t \<Rightarrow> machine \<Rightarrow> machine" where
  "late_k8_quirk K cpuid_info s =
     (if str0 (vendor_id_str cpuid_info) = CHR ''A'' \<and> family (version cpuid_info) = 0xF
         \<and> extendedFamily (version cpuid_info) = 0 \<and> extendedModel (version cpuid_info) \<ge> 4
      then s\<lparr>quirk := (quirk s)\<lparr>q_id := QUIRK_K8_REVFG_TEMP,
                                 q_type := q_type (quirk s) OR QUIRK_TYPE_TEMP K,
                                 process := Some FN_amd_k8_revfg_temp\<rparr>\<rparr>
      else s)"

definition amd_k10_quirk :: "header \<Rightarrow> hardware \<Rightarrow> cpuid_info_t \<Rightarrow> machine \<Rightarrow> machine" where
  "amd_k10_quirk K hw cpuid_info s =
     (if str0 (vendor_id_str cpuid_info) = CHR ''A'' \<and> family (version cpuid_info) = 0xF
         \<and> extendedFamily (version cpuid_info) = 1 \<and> extendedModel (version cpuid_info) = 0
      then
        let pkg_type = (ucast (drop_bit 28 (extendedBrandID (version cpuid_info)) AND 0x0F)
                         :: 8 word);
            (dct0_high, s1) = pci_config_read32 hw 0 24 2 0x94 s
        in
        if pkg_type = 0 \<or> (pkg_type = 1 \<and> (drop_bit 8 dct0_high AND 1 = 0))
        then
          if model (version cpuid_info) < 4 \<or>
             (model (version cpuid_info) = 4 \<and> stepping (version cpuid_info) \<le> 2) \<or>
             model (version cpuid_info) = 8
          then s1\<lparr>quirk := (quirk s1)\<lparr>q_id := QUIRK_AMD_ERRATA_319,
                                       q_type := q_type (quirk s1) OR QUIRK_TYPE_TEMP K,
                                       process := Some FN_disable_temp_reporting\<rparr>\<rparr>
          else s1
        else s1
      else s)"

definition adl_n_quirk :: "header \<Rightarrow> hardware \<Rightarrow> int \<Rightarrow> machine \<Rightarrow> machine" where
  "adl_n_quirk K hw imc_type s =
     (if imc_type = IMC_ADL_N K
      then
        let (x, s1) = pci_config_read16 hw 0 31 4 0x2 s in
        if x = 0x54A3
        then s1\<lparr>quirk := (quirk s1)\<lparr>q_id := QUIRK_ADL_SMB_UNLOCK,
                                     q_type := q_type (quirk s1) OR QUIRK_TYPE_SMBUS K,
                                     process := Some FN_adl_unlock_smbus\<rparr>\<rparr>
        else s1
      else s)"

definition quirks_init ::
  "header \<Rightarrow> hardware \<Rightarrow> cpuid_info_t \<Rightarrow> int \<Rightarrow> machine \<Rightarrow> machine" where
  "quirks_init K hw cpuid_info imc_type s =
     adl_n_quirk K hw imc_type
       (amd_k10_quirk K hw cpuid_info
         (late_k8_quirk K cpuid_info
           (early_k8_quirk K cpuid_info
             (supermicro_x10sdv_quirk K hw
               (asus_tusl2_c_quirk K hw
                 (ali_aladdin_v_quirk K
                   (quirks_reset K hw s)))))))"

subsection \<open>The rule table of the specification\<close>

text \<open>
  The specification describes \<open>quirks_init\<close> as a table of seven rules R1 to R7, tried in
  order against a fingerprint of the platform.  This is that description, kept apart
  from \<open>quirks_init\<close> so that the two can be compared: the trigger of every rule on the
  values the platform answers, its identifier, its domains and its corrective action.
  The package type of R6 is bits 31 to 28 of \<open>extendedBrandID\<close>, its DRAM channel test
  is bit 8 of the register at 0x94 of function 2 of device 24.
\<close>

datatype rule = R1 | R2 | R3 | R4 | R5 | R6 | R7

fun trigger :: "header \<Rightarrow> hardware \<Rightarrow> cpuid_info_t \<Rightarrow> int \<Rightarrow> rule \<Rightarrow> bool" where
  "trigger K hw cpu imc R1 =
     (cfg16 hw 0 0 0 (PCI_VID_REG K) = PCI_VID_ALI K \<and>
      cfg16 hw 0 0 0 (PCI_DID_REG K) = 0x1541)"
| "trigger K hw cpu imc R2 =
     (cfg16 hw 0 0 0 (PCI_VID_REG K) = PCI_VID_INTEL K \<and>
      cfg16 hw 0 0 0 (PCI_DID_REG K) = 0x1130 \<and>
      cfg16 hw 0 0 0 (PCI_SUB_VID_REG K) = PCI_VID_ASUS K \<and>
      cfg16 hw 0 0 0 (PCI_SUB_DID_REG K) = 0x8027)"
| "trigger K hw cpu imc R3 =
     (cfg16 hw 0 0 0 (PCI_VID_REG K) = PCI_VID_INTEL K \<and>
      cfg16 hw 0 0 0 (PCI_DID_REG K) = 0x6F00 \<and>
      cfg16 hw 0 0 0 (PCI_SUB_VID_REG K) = PCI_VID_SUPERMICRO K)"
| "trigger K hw cpu imc R4 =
     (str0 (vendor_id_str cpu) = CHR ''A'' \<and> family (version cpu) = 0xF \<and>
      extendedFamily (version cpu) = 0 \<and> extendedModel (version cpu) = 0 \<and>
      ((model (version cpu) = 4 \<and> stepping (version cpu) = 0) \<or>
       (model (version cpu) = 5 \<and> stepping (version cpu) \<le> 1)))"
| "trigger K hw cpu imc R5 =
     (str0 (vendor_id_str cpu) = CHR ''A'' \<and> family (version cpu) = 0xF \<and>
      extendedFamily (version cpu) = 0 \<and> 4 \<le> extendedModel (version cpu))"
| "trigger K hw cpu imc R6 =
     (str0 (vendor_id_str cpu) = CHR ''A'' \<and> family (version cpu) = 0xF \<and>
      extendedFamily (version cpu) = 1 \<and> extendedModel (version cpu) = 0 \<and>
      (drop_bit 28 (extendedBrandID (version cpu)) = 0 \<or>
       (drop_bit 28 (extendedBrandID (version cpu)) = 1 \<and> \<not> bit (cfg32 hw 0 24 2 0x94) 8)) \<and>
      (model (version cpu) < 4 \<or>
       (model (version cpu) = 4 \<and> stepping (version cpu) \<le> 2) \<or>
       model (version cpu) = 8))"
| "trigger K hw cpu imc R7 = (imc = IMC_ADL_N K \<and> cfg16 hw 0 31 4 0x2 = 0x54A3)"

fun rule_id :: "rule \<Rightarrow> quirk_id_t" where
  "rule_id R1 = QUIRK_ALI_ALADDIN_V"
| "rule_id R2 = QUIRK_TUSL2"
| "rule_id R3 = QUIRK_X10SDV_NOSMP"
| "rule_id R4 = QUIRK_K8_BSTEP_NOTEMP"
| "rule_id R5 = QUIRK_K8_REVFG_TEMP"
| "rule_id R6 = QUIRK_AMD_ERRATA_319"
| "rule_id R7 = QUIRK_ADL_SMB_UNLOCK"

fun rule_domains :: "header \<Rightarrow> rule \<Rightarrow> 8 word" where
  "rule_domains K R1 = QUIRK_TYPE_MEM_SIZE K"
| "rule_domains K R2 = QUIRK_TYPE_SMBUS K"
| "rule_domains K R3 = QUIRK_TYPE_SMP K"
| "rule_domains K R4 = QUIRK_TYPE_TEMP K"
| "rule_domains K R5 = QUIRK_TYPE_TEMP K"
| "rule_domains K R6 = QUIRK_TYPE_TEMP K"
| "rule_domains K R7 = QUIRK_TYPE_SMBUS K"

fun rule_action :: "rule \<Rightarrow> action option" where
  "rule_action R1 = Some FN_get_m1541_l2_cache_size"
| "rule_action R2 = Some FN_asus_tusl2_configure_mux"
| "rule_action R3 = None"
| "rule_action R4 = Some FN_disable_temp_reporting"
| "rule_action R5 = Some FN_amd_k8_revfg_temp"
| "rule_action R6 = Some FN_disable_temp_reporting"
| "rule_action R7 = Some FN_adl_unlock_smbus"

definition rule_table :: "rule list" where
  "rule_table = [R1, R2, R3, R4, R5, R6, R7]"

text \<open>The rules that match a fingerprint, in table order, and the union of their domains.\<close>

definition matching :: "header \<Rightarrow> hardware \<Rightarrow> cpuid_info_t \<Rightarrow> int \<Rightarrow> rule list" where
  "matching K hw cpu imc = filter (trigger K hw cpu imc) rule_table"

definition domains_union :: "header \<Rightarrow> rule list \<Rightarrow> 8 word" where
  "domains_union K rs = foldr (\<lambda>r acc. rule_domains K r OR acc) rs 0"

text \<open>What the specification says a matching rule does to the record.\<close>

definition apply_rule :: "header \<Rightarrow> quirk_t \<Rightarrow> rule \<Rightarrow> quirk_t" where
  "apply_rule K q r =
     q\<lparr>q_id := rule_id r, q_type := q_type q OR rule_domains K r, process := rule_action r\<rparr>"

definition rule_step ::
  "header \<Rightarrow> hardware \<Rightarrow> cpuid_info_t \<Rightarrow> int \<Rightarrow> quirk_t \<Rightarrow> rule \<Rightarrow> quirk_t" where
  "rule_step K hw cpu imc q r = (if trigger K hw cpu imc r then apply_rule K q r else q)"

text \<open>The record after the five assignments that open \<open>quirks_init\<close>.\<close>

definition quirk0 :: "header \<Rightarrow> hardware \<Rightarrow> quirk_t" where
  "quirk0 K hw =
     \<lparr>q_id = QUIRK_NONE, q_type = QUIRK_TYPE_NONE K,
      root_vid = cfg16 hw 0 0 0 (PCI_VID_REG K), root_did = cfg16 hw 0 0 0 (PCI_DID_REG K),
      process = None\<rparr>"

definition fingerprint_ok :: "header \<Rightarrow> hardware \<Rightarrow> quirk_t \<Rightarrow> bool" where
  "fingerprint_ok K hw q \<longleftrightarrow>
     root_vid q = cfg16 hw 0 0 0 (PCI_VID_REG K) \<and> root_did q = cfg16 hw 0 0 0 (PCI_DID_REG K)"

text \<open>
  The mobile parts that \<open>amd_k8_revfg_temp\<close> excludes: model 0xF with brand index 0x7,
  0x9 or 0xC, and model 0xB with brand index above 0xB; the brand index is bits 13 to 9
  of \<open>extendedBrandID\<close>.
\<close>

definition brand_index :: "cpuid_info_t \<Rightarrow> nat" where
  "brand_index cpu = unat (drop_bit 9 (extendedBrandID (version cpu))) mod 32"

definition mobile_k8 :: "cpuid_info_t \<Rightarrow> bool" where
  "mobile_k8 cpu \<longleftrightarrow>
     (model (version cpu) = 0xF \<and> brand_index cpu \<in> {0x7, 0x9, 0xC}) \<or>
     (model (version cpu) = 0xB \<and> brand_index cpu > 0xB)"

text \<open>Events that are reads of configuration space, and runs that do nothing else.\<close>

fun is_config_read :: "event \<Rightarrow> bool" where
  "is_config_read (PciRead8 b d f r) = True"
| "is_config_read (PciRead16 b d f r) = True"
| "is_config_read (PciRead32 b d f r) = True"
| "is_config_read e = False"

definition reads_only :: "machine \<Rightarrow> machine \<Rightarrow> bool" where
  "reads_only s s' \<longleftrightarrow>
     l2_cache s' = l2_cache s \<and> enable_temperature s' = enable_temperature s \<and>
     cpu_temp_offset s' = cpu_temp_offset s \<and>
     (\<exists>evs. trace s' = trace s @ evs \<and> list_all is_config_read evs)"

subsection \<open>Concrete platforms\<close>

text \<open>
  A header for the runs on concrete platforms: the register offsets and vendor numbers
  of the PCI standard, and one bit for each domain with the empty mask for
  \<open>QUIRK_TYPE_NONE\<close>.  The theorems that quantify over \<open>K\<close> do not depend on it.
\<close>

definition pc_header :: header where
  "pc_header =
     \<lparr>PCI_VID_REG = 0x00, PCI_DID_REG = 0x02, PCI_SUB_VID_REG = 0x2C, PCI_SUB_DID_REG = 0x2E,
      PCI_VID_ALI = 0x10B9, PCI_VID_INTEL = 0x8086, PCI_VID_ASUS = 0x1043,
      PCI_VID_SUPERMICRO = 0x15D9, AMD_TEMP_REG_K8 = 0xE4, IMC_ADL_N = 1,
      QUIRK_TYPE_NONE = 0x00, QUIRK_TYPE_MEM_SIZE = 0x40, QUIRK_TYPE_SMBUS = 0x10,
      QUIRK_TYPE_SMP = 0x04, QUIRK_TYPE_TEMP = 0x80\<rparr>"

text \<open>
  A platform given by the registers that answer; every other read returns all ones, as
  an absent device does.
\<close>

definition platform ::
  "((nat \<times> nat \<times> nat \<times> nat) \<times> 8 word) list \<Rightarrow>
   ((nat \<times> nat \<times> nat \<times> nat) \<times> 16 word) list \<Rightarrow>
   ((nat \<times> nat \<times> nat \<times> nat) \<times> 32 word) list \<Rightarrow> hardware" where
  "platform l8 l16 l32 =
     \<lparr>cfg8 = (\<lambda>b d f r. case map_of l8 (b, d, f, r) of Some v \<Rightarrow> v | None \<Rightarrow> 0xFF),
      cfg16 = (\<lambda>b d f r. case map_of l16 (b, d, f, r) of Some v \<Rightarrow> v | None \<Rightarrow> 0xFFFF),
      cfg32 = (\<lambda>b d f r. case map_of l32 (b, d, f, r) of Some v \<Rightarrow> v | None \<Rightarrow> 0xFFFFFFFF),
      lpc_reg = (\<lambda>r. 0xFF)\<rparr>"

definition cpu_of ::
  "string \<Rightarrow> nat \<Rightarrow> nat \<Rightarrow> nat \<Rightarrow> nat \<Rightarrow> nat \<Rightarrow> 32 word \<Rightarrow> cpuid_info_t" where
  "cpu_of vendor fam xfam mdl xmdl step brand =
     \<lparr>vendor_id_str = vendor,
      version = \<lparr>stepping = step, model = mdl, family = fam, extendedModel = xmdl,
                 extendedFamily = xfam, extendedBrandID = brand\<rparr>\<rparr>"

text \<open>The globals at program start: nothing probed, temperature reporting on, no offset.\<close>

definition boot :: machine where
  "boot = \<lparr>quirk = \<lparr>q_id = QUIRK_NONE, q_type = 0, root_vid = 0, root_did = 0, process = None\<rparr>,
           l2_cache = 0, enable_temperature = True, cpu_temp_offset = 0, trace = []\<rparr>"

definition ali_board :: hardware where
  "ali_board = platform [((0, 0, 0, 0x42), 0x01), ((0, 0, 0, 0x41), 0x04)]
                        [((0, 0, 0, 0x00), 0x10B9), ((0, 0, 0, 0x02), 0x1541)] []"

definition tusl2_board :: hardware where
  "tusl2_board = platform []
     [((0, 0, 0, 0x00), 0x8086), ((0, 0, 0, 0x02), 0x1130),
      ((0, 0, 0, 0x2C), 0x1043), ((0, 0, 0, 0x2E), 0x8027)] []"

definition x10sdv_board :: hardware where
  "x10sdv_board = platform []
     [((0, 0, 0, 0x00), 0x8086), ((0, 0, 0, 0x02), 0x6F00), ((0, 0, 0, 0x2C), 0x15D9)] []"

definition adl_n_board :: hardware where
  "adl_n_board = platform []
     [((0, 0, 0, 0x00), 0x8086), ((0, 0, 0, 0x02), 0x461C),
      ((0, 31, 4, 0x2), 0x54A3), ((0, 31, 4, 0x04), 0x0002)] []"

definition amd_board :: hardware where
  "amd_board = platform []
     [((0, 0, 0, 0x00), 0x1022), ((0, 0, 0, 0x02), 0x1100)]
     [((0, 24, 3, 0xE4), 0x00000000), ((0, 24, 2, 0x94), 0x00000000)]"

definition intel_cpu :: cpuid_info_t where
  "intel_cpu = cpu_of ''GenuineIntel'' 6 0 0xB 0 1 0"

definition clawhammer_cpu :: cpuid_info_t where
  "clawhammer_cpu = cpu_of ''AuthenticAMD'' 0xF 0 4 0 0 0"

definition rev_f_cpu :: cpuid_info_t where
  "rev_f_cpu = cpu_of ''AuthenticAMD'' 0xF 0 3 5 2 0"

definition rev_g_cpu :: cpuid_info_t where
  "rev_g_cpu = cpu_of ''AuthenticAMD'' 0xF 0 0xB 6 1 0"

definition k10_cpu :: cpuid_info_t where
  "k10_cpu = cpu_of ''AuthenticAMD'' 0xF 1 2 0 3 0"

section \<open>Properties\<close>

subsection \<open>Bit-level facts\<close>

lemmas prim_defs = emit_def outb_def usleep_def lpc_outb_def lpc_inb_def
  pci_config_read8_def pci_config_read16_def pci_config_read32_def
  pci_config_write8_def pci_config_write16_def

lemmas read_defs = pci_config_read8_def pci_config_read16_def pci_config_read32_def

lemma mux_mask: "(0xE7 :: 8 word) = NOT 0x18"
  by code_simp

lemma bit0_clear: "((x :: 16 word) AND 1 = 0) = (\<not> bit x 0)"
  by (simp add: and_one_eq bit_0 mod_2_eq_odd)

lemma dct_bit: "(drop_bit 8 (d :: 32 word) AND 1 = 0) = (\<not> bit d 8)"
  by (simp add: and_one_eq bit_iff_odd_drop_bit mod_2_eq_odd)

lemma hi_nibble_lt: "unat (drop_bit 28 (x :: 32 word)) < 16"
proof -
  have "unat x < 2 ^ 32" using unsigned_less [of x] by simp
  then have "unat x div 2 ^ 28 < 16" by simp
  moreover have "unat (drop_bit 28 x) = unat x div 2 ^ 28"
    by (subst unat_drop_bit_eq) (rule drop_bit_eq_div)
  ultimately show ?thesis by simp
qed

lemma hi_nibble: "drop_bit 28 (x :: 32 word) AND 0x0F = drop_bit 28 x"
proof -
  have m: "(0x0F :: 32 word) = mask 4" by (simp add: mask_eq_exp_minus_1)
  have "drop_bit 28 x < (2 ^ 4 :: 32 word)"
    using hi_nibble_lt [of x] by (simp add: word_less_nat_alt)
  then show ?thesis unfolding m by (rule less_mask_eq)
qed

lemma pkg_type_eq:
  "((ucast (drop_bit 28 (x :: 32 word) AND 0x0F) :: 8 word) = 0) = (drop_bit 28 x = 0)"
  "((ucast (drop_bit 28 (x :: 32 word) AND 0x0F) :: 8 word) = 1) = (drop_bit 28 x = 1)"
proof -
  have u: "unat (ucast (drop_bit 28 x) :: 8 word) = unat (drop_bit 28 x)"
    using hi_nibble_lt [of x] by (simp add: unsigned_ucast_eq take_bit_eq_mod)
  show "((ucast (drop_bit 28 x AND 0x0F) :: 8 word) = 0) = (drop_bit 28 x = 0)"
    unfolding hi_nibble using u by (simp add: word_unat_eq_iff)
  show "((ucast (drop_bit 28 x AND 0x0F) :: 8 word) = 1) = (drop_bit 28 x = 1)"
    unfolding hi_nibble using u by (simp add: word_unat_eq_iff)
qed

subsection \<open>Each block of \<open>quirks_init\<close> is one rule of the table\<close>

lemma apply_rule_fp [simp]: "fingerprint_ok K hw (apply_rule K q r) = fingerprint_ok K hw q"
  by (simp add: fingerprint_ok_def apply_rule_def)

lemma rule_step_fp [simp]:
  "fingerprint_ok K hw (rule_step K hw cpu imc q r) = fingerprint_ok K hw q"
  by (simp add: rule_step_def)

lemma reset_quirk: "quirk (quirks_reset K hw s) = quirk0 K hw"
  by (simp add: quirks_reset_def prim_defs Let_def quirk0_def)

lemma ali_quirk:
  "fingerprint_ok K hw (quirk s) \<Longrightarrow>
   quirk (ali_aladdin_v_quirk K s) = rule_step K hw cpu imc (quirk s) R1"
  by (simp add: ali_aladdin_v_quirk_def rule_step_def apply_rule_def fingerprint_ok_def)

lemma tusl2_quirk:
  "fingerprint_ok K hw (quirk s) \<Longrightarrow>
   quirk (asus_tusl2_c_quirk K hw s) = rule_step K hw cpu imc (quirk s) R2"
  by (simp add: asus_tusl2_c_quirk_def rule_step_def apply_rule_def fingerprint_ok_def
      prim_defs Let_def)

lemma x10sdv_quirk:
  "fingerprint_ok K hw (quirk s) \<Longrightarrow>
   quirk (supermicro_x10sdv_quirk K hw s) = rule_step K hw cpu imc (quirk s) R3"
  by (simp add: supermicro_x10sdv_quirk_def rule_step_def apply_rule_def fingerprint_ok_def
      prim_defs Let_def)

lemma early_k8: "quirk (early_k8_quirk K cpu s) = rule_step K hw cpu imc (quirk s) R4"
  by (simp add: early_k8_quirk_def rule_step_def apply_rule_def)

lemma late_k8: "quirk (late_k8_quirk K cpu s) = rule_step K hw cpu imc (quirk s) R5"
  by (simp add: late_k8_quirk_def rule_step_def apply_rule_def)

lemma amd_k10: "quirk (amd_k10_quirk K hw cpu s) = rule_step K hw cpu imc (quirk s) R6"
  by (simp add: amd_k10_quirk_def rule_step_def apply_rule_def prim_defs Let_def
      pkg_type_eq dct_bit)

lemma adl_n: "quirk (adl_n_quirk K hw imc s) = rule_step K hw cpu imc (quirk s) R7"
  by (simp add: adl_n_quirk_def rule_step_def apply_rule_def prim_defs Let_def)

lemma quirks_init_fold:
  "quirk (quirks_init K hw cpu imc s) = foldl (rule_step K hw cpu imc) (quirk0 K hw) rule_table"
proof -
  let ?st = "rule_step K hw cpu imc"
  define s0 where "s0 = quirks_reset K hw s"
  define s1 where "s1 = ali_aladdin_v_quirk K s0"
  define s2 where "s2 = asus_tusl2_c_quirk K hw s1"
  define s3 where "s3 = supermicro_x10sdv_quirk K hw s2"
  define s4 where "s4 = early_k8_quirk K cpu s3"
  define s5 where "s5 = late_k8_quirk K cpu s4"
  define s6 where "s6 = amd_k10_quirk K hw cpu s5"
  have q0: "quirk s0 = quirk0 K hw"
    by (simp add: s0_def reset_quirk)
  have f0: "fingerprint_ok K hw (quirk s0)"
    by (simp add: q0 quirk0_def fingerprint_ok_def)
  have q1: "quirk s1 = ?st (quirk s0) R1"
    unfolding s1_def using f0 by (rule ali_quirk)
  have f1: "fingerprint_ok K hw (quirk s1)"
    by (simp add: q1 f0)
  have q2: "quirk s2 = ?st (quirk s1) R2"
    unfolding s2_def using f1 by (rule tusl2_quirk)
  have f2: "fingerprint_ok K hw (quirk s2)"
    by (simp add: q2 f1)
  have q3: "quirk s3 = ?st (quirk s2) R3"
    unfolding s3_def using f2 by (rule x10sdv_quirk)
  have q4: "quirk s4 = ?st (quirk s3) R4"
    unfolding s4_def by (rule early_k8)
  have q5: "quirk s5 = ?st (quirk s4) R5"
    unfolding s5_def by (rule late_k8)
  have q6: "quirk s6 = ?st (quirk s5) R6"
    unfolding s6_def by (rule amd_k10)
  have q7: "quirk (adl_n_quirk K hw imc s6) = ?st (quirk s6) R7"
    by (rule adl_n)
  have "quirks_init K hw cpu imc s = adl_n_quirk K hw imc s6"
    by (simp add: quirks_init_def s6_def s5_def s4_def s3_def s2_def s1_def s0_def)
  then show ?thesis
    by (simp add: q7 q6 q5 q4 q3 q2 q1 q0 rule_table_def)
qed

lemma fold_filter:
  "foldl (rule_step K hw cpu imc) q rs =
   foldl (apply_rule K) q (filter (trigger K hw cpu imc) rs)"
  by (induction rs arbitrary: q) (simp_all add: rule_step_def)

lemma quirks_init_matching:
  "quirk (quirks_init K hw cpu imc s) =
     foldl (apply_rule K) (quirk0 K hw) (matching K hw cpu imc)"
  by (simp add: quirks_init_fold fold_filter matching_def)

lemma apply_rules_type:
  "q_type (foldl (apply_rule K) q rs) = q_type q OR domains_union K rs"
  by (induction rs arbitrary: q) (simp_all add: domains_union_def apply_rule_def or.assoc)

lemma apply_rules_last:
  "rs \<noteq> [] \<Longrightarrow>
   q_id (foldl (apply_rule K) q rs) = rule_id (last rs) \<and>
   process (foldl (apply_rule K) q rs) = rule_action (last rs)"
  by (induction rs arbitrary: q) (simp_all add: apply_rule_def)

subsection \<open>\<open>quirks_init\<close> only reads\<close>

lemma reads_only_refl: "reads_only s s"
  by (simp add: reads_only_def)

lemma reads_only_trans: "reads_only s t \<Longrightarrow> reads_only t u \<Longrightarrow> reads_only s u"
proof -
  assume st: "reads_only s t" and tu: "reads_only t u"
  from st obtain e1 where e1: "trace t = trace s @ e1" "list_all is_config_read e1"
    by (auto simp: reads_only_def)
  from tu obtain e2 where e2: "trace u = trace t @ e2" "list_all is_config_read e2"
    by (auto simp: reads_only_def)
  have "trace u = trace s @ (e1 @ e2) \<and> list_all is_config_read (e1 @ e2)"
    using e1 e2 by simp
  then have "\<exists>evs. trace u = trace s @ evs \<and> list_all is_config_read evs" ..
  with st tu show ?thesis by (simp add: reads_only_def)
qed

lemma reads_only_quirk: "reads_only s (s\<lparr>quirk := q\<rparr>)"
  by (simp add: reads_only_def)

lemma reads_only_emit: "is_config_read e \<Longrightarrow> reads_only s (emit e s)"
  by (simp add: reads_only_def emit_def)

lemma reads_only_emit_quirk: "is_config_read e \<Longrightarrow> reads_only s ((emit e s)\<lparr>quirk := q\<rparr>)"
  by (simp add: reads_only_def emit_def)

lemma reads_only_emit2:
  "is_config_read e \<Longrightarrow> is_config_read e' \<Longrightarrow> reads_only s (emit e' (emit e s))"
  "is_config_read e \<Longrightarrow> is_config_read e' \<Longrightarrow>
   reads_only s ((emit e' (emit e s))\<lparr>quirk := q\<rparr>)"
  by (simp_all add: reads_only_def emit_def)

lemma reset_reads: "reads_only s (quirks_reset K hw s)"
  by (simp add: quirks_reset_def read_defs Let_def reads_only_def emit_def)

lemma ali_reads: "reads_only s (ali_aladdin_v_quirk K s)"
  by (simp add: ali_aladdin_v_quirk_def reads_only_refl reads_only_quirk)

lemma tusl2_reads: "reads_only s (asus_tusl2_c_quirk K hw s)"
  by (simp add: asus_tusl2_c_quirk_def read_defs Let_def reads_only_refl
      reads_only_emit reads_only_emit2)

lemma x10sdv_reads: "reads_only s (supermicro_x10sdv_quirk K hw s)"
  by (simp add: supermicro_x10sdv_quirk_def read_defs Let_def reads_only_refl
      reads_only_emit reads_only_emit_quirk)

lemma early_k8_reads: "reads_only s (early_k8_quirk K cpu s)"
  by (simp add: early_k8_quirk_def reads_only_refl reads_only_quirk)

lemma late_k8_reads: "reads_only s (late_k8_quirk K cpu s)"
  by (simp add: late_k8_quirk_def reads_only_refl reads_only_quirk)

lemma amd_k10_reads: "reads_only s (amd_k10_quirk K hw cpu s)"
  by (simp add: amd_k10_quirk_def read_defs Let_def reads_only_refl
      reads_only_emit reads_only_emit_quirk)

lemma adl_n_reads: "reads_only s (adl_n_quirk K hw imc s)"
  by (simp add: adl_n_quirk_def read_defs Let_def reads_only_refl
      reads_only_emit reads_only_emit_quirk)

lemma quirks_init_reads: "reads_only s (quirks_init K hw cpu imc s)"
  unfolding quirks_init_def
  apply (rule reads_only_trans [OF reset_reads [of s K hw]])
  apply (rule reads_only_trans [OF ali_reads [of _ K]])
  apply (rule reads_only_trans [OF tusl2_reads [of _ K hw]])
  apply (rule reads_only_trans [OF x10sdv_reads [of _ K hw]])
  apply (rule reads_only_trans [OF early_k8_reads [of _ K cpu]])
  apply (rule reads_only_trans [OF late_k8_reads [of _ K cpu]])
  apply (rule reads_only_trans [OF amd_k10_reads [of _ K hw cpu]])
  apply (rule adl_n_reads)
  done

subsection \<open>Concrete runs\<close>

lemmas ex_defs = pc_header_def platform_def cpu_of_def boot_def ali_board_def tusl2_board_def
  x10sdv_board_def adl_n_board_def amd_board_def intel_cpu_def clawhammer_cpu_def
  rev_f_cpu_def rev_g_cpu_def k10_cpu_def str0_def

lemmas block_defs = quirks_init_def quirks_reset_def ali_aladdin_v_quirk_def
  asus_tusl2_c_quirk_def supermicro_x10sdv_quirk_def early_k8_quirk_def late_k8_quirk_def
  amd_k10_quirk_def adl_n_quirk_def

lemmas match_defs = matching_def rule_table_def

lemma pc_header_types:
  "QUIRK_TYPE_NONE pc_header = 0" "QUIRK_TYPE_MEM_SIZE pc_header = 0x40"
  "QUIRK_TYPE_SMBUS pc_header = 0x10" "QUIRK_TYPE_SMP pc_header = 0x04"
  "QUIRK_TYPE_TEMP pc_header = 0x80"
  by (simp_all add: pc_header_def)

lemma apply_rules_process:
  "process (foldl (apply_rule K) q rs) = last (process q # map rule_action rs)"
  by (induction rs arbitrary: q) (simp_all add: apply_rule_def)

subsection \<open>What \<open>amd_k8_revfg_temp\<close> does to the offset\<close>

lemma brand_index_eq:
  "unat ((ucast (drop_bit 9 (x :: 32 word) AND 0x1f)) :: 16 word) = unat (drop_bit 9 x) mod 32"
proof -
  have m: "(0x1f :: 32 word) = mask 5" by (simp add: mask_eq_exp_minus_1)
  have "unat (drop_bit 9 x AND 0x1f) = unat (drop_bit 9 x) mod 32"
    unfolding m by (simp add: unsigned_take_bit_eq take_bit_eq_mod unat_mod_distrib flip: take_bit_eq_mask)
  moreover have "unat (drop_bit 9 x) mod 32 < 2 ^ 16"
    by (rule less_trans [of _ 32]) simp_all
  ultimately show ?thesis
    by (simp add: unsigned_ucast_eq take_bit_eq_mod)
qed

lemma mobile_k8_code:
  "mobile_k8 cpu \<longleftrightarrow>
     (let brandID = (ucast (drop_bit 9 (extendedBrandID (version cpu)) AND 0x1f) :: 16 word)
      in (model (version cpu) = 0xF \<and> (brandID = 0x7 \<or> brandID = 0x9 \<or> brandID = 0xC)) \<or>
         (model (version cpu) = 0xB \<and> brandID > 0xB))"
  by (simp add: mobile_k8_def brand_index_def Let_def word_unat_eq_iff word_less_nat_alt
      brand_index_eq)

lemma amd_k8_revfg_temp_offset:
  "cpu_temp_offset (amd_k8_revfg_temp K hw cpu s) =
     (if extendedModel (version cpu) = 6 \<or> mobile_k8 cpu then cpu_temp_offset s else 21)"
  by (auto simp: amd_k8_revfg_temp_def mobile_k8_code prim_defs Let_def)

section \<open>The claims\<close>

text \<open>
  C1.  When two or more rules of the table match, the domain mask of the record is the
  union of the domains of all matching rules (on top of \<open>QUIRK_TYPE_NONE\<close>, the empty
  mask), and the identifier and the action are those of the last matching rule in table
  order.
\<close>

theorem quirks_init_multiple_matches:
  assumes "2 \<le> length (matching K hw cpu imc)"
  shows "q_type (quirk (quirks_init K hw cpu imc s)) =
           QUIRK_TYPE_NONE K OR domains_union K (matching K hw cpu imc)
       \<and> (QUIRK_TYPE_NONE K = 0 \<longrightarrow>
            q_type (quirk (quirks_init K hw cpu imc s)) = domains_union K (matching K hw cpu imc))
       \<and> q_id (quirk (quirks_init K hw cpu imc s)) = rule_id (last (matching K hw cpu imc))
       \<and> process (quirk (quirks_init K hw cpu imc s)) = rule_action (last (matching K hw cpu imc))"
proof -
  from assms have ne: "matching K hw cpu imc \<noteq> []" by auto
  show ?thesis
    using apply_rules_last [OF ne, of K "quirk0 K hw"]
    by (simp add: quirks_init_matching apply_rules_type quirk0_def)
qed

theorem quirks_init_multiple_matches_witness:
  "matching pc_header ali_board clawhammer_cpu 0 = [R1, R4] \<and>
   q_type (quirk (quirks_init pc_header ali_board clawhammer_cpu 0 boot)) = 0x40 OR 0x80 \<and>
   q_id (quirk (quirks_init pc_header ali_board clawhammer_cpu 0 boot)) = QUIRK_K8_BSTEP_NOTEMP \<and>
   process (quirk (quirks_init pc_header ali_board clawhammer_cpu 0 boot)) =
     Some FN_disable_temp_reporting"
proof -
  have m: "matching pc_header ali_board clawhammer_cpu 0 = [R1, R4]"
    by (simp add: match_defs ex_defs)
  then have h: "2 \<le> length (matching pc_header ali_board clawhammer_cpu 0)" by simp
  show ?thesis
    using quirks_init_multiple_matches [OF h, of boot]
    by (simp add: m domains_union_def pc_header_types)
qed

text \<open>
  C2.  When exactly one rule matches, the record has that rule's identifier and domain
  mask, and its action, which is NULL for R3 (SuperMicro X10SDV) and for no other rule.
  The concrete run covers one fingerprint for each of the seven rules.
\<close>

theorem quirks_init_single_match:
  assumes "matching K hw cpu imc = [r]"
  shows "q_id (quirk (quirks_init K hw cpu imc s)) = rule_id r
       \<and> q_type (quirk (quirks_init K hw cpu imc s)) = QUIRK_TYPE_NONE K OR rule_domains K r
       \<and> (QUIRK_TYPE_NONE K = 0 \<longrightarrow>
            q_type (quirk (quirks_init K hw cpu imc s)) = rule_domains K r)
       \<and> process (quirk (quirks_init K hw cpu imc s)) = rule_action r
       \<and> (process (quirk (quirks_init K hw cpu imc s)) = None \<longleftrightarrow> r = R3)"
  using assms
  by (cases r) (simp_all add: quirks_init_matching apply_rule_def quirk0_def)

theorem quirks_init_single_match_witness:
  "(matching pc_header ali_board intel_cpu 0 = [R1] \<and>
    q_id (quirk (quirks_init pc_header ali_board intel_cpu 0 boot)) = QUIRK_ALI_ALADDIN_V \<and>
    q_type (quirk (quirks_init pc_header ali_board intel_cpu 0 boot)) = 0x40 \<and>
    process (quirk (quirks_init pc_header ali_board intel_cpu 0 boot)) =
      Some FN_get_m1541_l2_cache_size) \<and>
   (matching pc_header tusl2_board intel_cpu 0 = [R2] \<and>
    q_id (quirk (quirks_init pc_header tusl2_board intel_cpu 0 boot)) = QUIRK_TUSL2 \<and>
    q_type (quirk (quirks_init pc_header tusl2_board intel_cpu 0 boot)) = 0x10 \<and>
    process (quirk (quirks_init pc_header tusl2_board intel_cpu 0 boot)) =
      Some FN_asus_tusl2_configure_mux) \<and>
   (matching pc_header x10sdv_board intel_cpu 0 = [R3] \<and>
    q_id (quirk (quirks_init pc_header x10sdv_board intel_cpu 0 boot)) = QUIRK_X10SDV_NOSMP \<and>
    q_type (quirk (quirks_init pc_header x10sdv_board intel_cpu 0 boot)) = 0x04 \<and>
    process (quirk (quirks_init pc_header x10sdv_board intel_cpu 0 boot)) = None) \<and>
   (matching pc_header amd_board clawhammer_cpu 0 = [R4] \<and>
    q_id (quirk (quirks_init pc_header amd_board clawhammer_cpu 0 boot)) = QUIRK_K8_BSTEP_NOTEMP \<and>
    q_type (quirk (quirks_init pc_header amd_board clawhammer_cpu 0 boot)) = 0x80 \<and>
    process (quirk (quirks_init pc_header amd_board clawhammer_cpu 0 boot)) =
      Some FN_disable_temp_reporting) \<and>
   (matching pc_header amd_board rev_g_cpu 0 = [R5] \<and>
    q_id (quirk (quirks_init pc_header amd_board rev_g_cpu 0 boot)) = QUIRK_K8_REVFG_TEMP \<and>
    q_type (quirk (quirks_init pc_header amd_board rev_g_cpu 0 boot)) = 0x80 \<and>
    process (quirk (quirks_init pc_header amd_board rev_g_cpu 0 boot)) =
      Some FN_amd_k8_revfg_temp) \<and>
   (matching pc_header amd_board k10_cpu 0 = [R6] \<and>
    q_id (quirk (quirks_init pc_header amd_board k10_cpu 0 boot)) = QUIRK_AMD_ERRATA_319 \<and>
    q_type (quirk (quirks_init pc_header amd_board k10_cpu 0 boot)) = 0x80 \<and>
    process (quirk (quirks_init pc_header amd_board k10_cpu 0 boot)) =
      Some FN_disable_temp_reporting) \<and>
   (matching pc_header adl_n_board intel_cpu 1 = [R7] \<and>
    q_id (quirk (quirks_init pc_header adl_n_board intel_cpu 1 boot)) = QUIRK_ADL_SMB_UNLOCK \<and>
    q_type (quirk (quirks_init pc_header adl_n_board intel_cpu 1 boot)) = 0x10 \<and>
    process (quirk (quirks_init pc_header adl_n_board intel_cpu 1 boot)) =
      Some FN_adl_unlock_smbus)"
proof -
  have m1: "matching pc_header ali_board intel_cpu 0 = [R1]"
    by (simp add: match_defs ex_defs)
  have m2: "matching pc_header tusl2_board intel_cpu 0 = [R2]"
    by (simp add: match_defs ex_defs)
  have m3: "matching pc_header x10sdv_board intel_cpu 0 = [R3]"
    by (simp add: match_defs ex_defs)
  have m4: "matching pc_header amd_board clawhammer_cpu 0 = [R4]"
    by (simp add: match_defs ex_defs)
  have m5: "matching pc_header amd_board rev_g_cpu 0 = [R5]"
    by (simp add: match_defs ex_defs)
  have m6: "matching pc_header amd_board k10_cpu 0 = [R6]"
    by (simp add: match_defs ex_defs)
  have m7: "matching pc_header adl_n_board intel_cpu 1 = [R7]"
    by (simp add: match_defs ex_defs)
  show ?thesis
    using quirks_init_single_match [OF m1, of boot] quirks_init_single_match [OF m2, of boot]
      quirks_init_single_match [OF m3, of boot] quirks_init_single_match [OF m4, of boot]
      quirks_init_single_match [OF m5, of boot] quirks_init_single_match [OF m6, of boot]
      quirks_init_single_match [OF m7, of boot]
    by (simp add: m1 m2 m3 m4 m5 m6 m7 pc_header_types)
qed

text \<open>
  C3.  The claim is that the offset of 21.0 is assigned exactly for extended models 6 to 8
  on parts that are not mobile, and never outside that range.  On a revision F part
  (extended model 5, not mobile), for which \<open>quirks_init\<close> stores \<open>amd_k8_revfg_temp\<close>,
  the function assigns the offset: the test \<open>extendedModel < 6 && extendedModel > 7\<close>
  holds for no value.  On a part with extended model 6 that is not mobile it assigns
  nothing: \<open>extendedModel == 6 && extendedModel < 9\<close> holds for every such part.
\<close>

theorem amd_k8_revfg_temp_rev_f_offset:
  "trigger pc_header amd_board rev_f_cpu 0 R5 \<and>
   extendedModel (version rev_f_cpu) = 5 \<and> \<not> mobile_k8 rev_f_cpu \<and>
   cpu_temp_offset boot = 0 \<and>
   cpu_temp_offset (amd_k8_revfg_temp pc_header amd_board rev_f_cpu boot) = 21 \<and>
   trigger pc_header amd_board rev_g_cpu 0 R5 \<and>
   extendedModel (version rev_g_cpu) = 6 \<and> \<not> mobile_k8 rev_g_cpu \<and>
   cpu_temp_offset (amd_k8_revfg_temp pc_header amd_board rev_g_cpu boot) = 0"
  by (simp add: amd_k8_revfg_temp_offset mobile_k8_def brand_index_def ex_defs)

text \<open>
  C4, as stated, fails.  For each of the six rules that have a corrective action, on a
  platform that the rule matches, \<open>quirks_init\<close> leaves the globals as they were, its
  only events are the reads of the fingerprint, and the action it stored, when called
  afterwards, still has its effect: no fix was run by \<open>quirks_init\<close>.
\<close>

theorem quirks_init_runs_no_fix:
  "(quirks_init pc_header ali_board intel_cpu 0 boot =
      boot\<lparr>quirk := \<lparr>q_id = QUIRK_ALI_ALADDIN_V, q_type = 0x40, root_vid = 0x10B9,
                       root_did = 0x1541, process = Some FN_get_m1541_l2_cache_size\<rparr>,
           trace := [PciRead16 0 0 0 0x00, PciRead16 0 0 0 0x02]\<rparr> \<and>
    call pc_header ali_board intel_cpu FN_get_m1541_l2_cache_size
        (quirks_init pc_header ali_board intel_cpu 0 boot) \<noteq>
      quirks_init pc_header ali_board intel_cpu 0 boot) \<and>
   (quirks_init pc_header tusl2_board intel_cpu 0 boot =
      boot\<lparr>quirk := \<lparr>q_id = QUIRK_TUSL2, q_type = 0x10, root_vid = 0x8086,
                       root_did = 0x1130, process = Some FN_asus_tusl2_configure_mux\<rparr>,
           trace := [PciRead16 0 0 0 0x00, PciRead16 0 0 0 0x02,
                     PciRead16 0 0 0 0x2C, PciRead16 0 0 0 0x2E]\<rparr> \<and>
    call pc_header tusl2_board intel_cpu FN_asus_tusl2_configure_mux
        (quirks_init pc_header tusl2_board intel_cpu 0 boot) \<noteq>
      quirks_init pc_header tusl2_board intel_cpu 0 boot) \<and>
   (quirks_init pc_header amd_board clawhammer_cpu 0 boot =
      boot\<lparr>quirk := \<lparr>q_id = QUIRK_K8_BSTEP_NOTEMP, q_type = 0x80, root_vid = 0x1022,
                       root_did = 0x1100, process = Some FN_disable_temp_reporting\<rparr>,
           trace := [PciRead16 0 0 0 0x00, PciRead16 0 0 0 0x02]\<rparr> \<and>
    call pc_header amd_board clawhammer_cpu FN_disable_temp_reporting
        (quirks_init pc_header amd_board clawhammer_cpu 0 boot) \<noteq>
      quirks_init pc_header amd_board clawhammer_cpu 0 boot) \<and>
   (quirks_init pc_header amd_board rev_g_cpu 0 boot =
      boot\<lparr>quirk := \<lparr>q_id = QUIRK_K8_REVFG_TEMP, q_type = 0x80, root_vid = 0x1022,
                       root_did = 0x1100, process = Some FN_amd_k8_revfg_temp\<rparr>,
           trace := [PciRead16 0 0 0 0x00, PciRead16 0 0 0 0x02]\<rparr> \<and>
    trace (call pc_header amd_board rev_g_cpu FN_amd_k8_revfg_temp
        (quirks_init pc_header amd_board rev_g_cpu 0 boot)) =
      [PciRead16 0 0 0 0x00, PciRead16 0 0 0 0x02,
       PciRead32 0 24 3 0xE4, PciWrite8 0 24 3 0xE4 0x04]) \<and>
   (quirks_init pc_header amd_board k10_cpu 0 boot =
      boot\<lparr>quirk := \<lparr>q_id = QUIRK_AMD_ERRATA_319, q_type = 0x80, root_vid = 0x1022,
                       root_did = 0x1100, process = Some FN_disable_temp_reporting\<rparr>,
           trace := [PciRead16 0 0 0 0x00, PciRead16 0 0 0 0x02, PciRead32 0 24 2 0x94]\<rparr> \<and>
    call pc_header amd_board k10_cpu FN_disable_temp_reporting
        (quirks_init pc_header amd_board k10_cpu 0 boot) \<noteq>
      quirks_init pc_header amd_board k10_cpu 0 boot) \<and>
   (quirks_init pc_header adl_n_board intel_cpu 1 boot =
      boot\<lparr>quirk := \<lparr>q_id = QUIRK_ADL_SMB_UNLOCK, q_type = 0x10, root_vid = 0x8086,
                       root_did = 0x461C, process = Some FN_adl_unlock_smbus\<rparr>,
           trace := [PciRead16 0 0 0 0x00, PciRead16 0 0 0 0x02, PciRead16 0 31 4 0x2]\<rparr> \<and>
    trace (call pc_header adl_n_board intel_cpu FN_adl_unlock_smbus
        (quirks_init pc_header adl_n_board intel_cpu 1 boot)) =
      [PciRead16 0 0 0 0x00, PciRead16 0 0 0 0x02, PciRead16 0 31 4 0x2,
       PciRead16 0 31 4 0x04, PciWrite16 0 31 4 0x04 0x0003])"
proof -
  have a: "quirks_init pc_header ali_board intel_cpu 0 boot =
      boot\<lparr>quirk := \<lparr>q_id = QUIRK_ALI_ALADDIN_V, q_type = 0x40, root_vid = 0x10B9,
                       root_did = 0x1541, process = Some FN_get_m1541_l2_cache_size\<rparr>,
           trace := [PciRead16 0 0 0 0x00, PciRead16 0 0 0 0x02]\<rparr>"
    by (simp add: block_defs ex_defs prim_defs Let_def)
  have b: "quirks_init pc_header tusl2_board intel_cpu 0 boot =
      boot\<lparr>quirk := \<lparr>q_id = QUIRK_TUSL2, q_type = 0x10, root_vid = 0x8086,
                       root_did = 0x1130, process = Some FN_asus_tusl2_configure_mux\<rparr>,
           trace := [PciRead16 0 0 0 0x00, PciRead16 0 0 0 0x02,
                     PciRead16 0 0 0 0x2C, PciRead16 0 0 0 0x2E]\<rparr>"
    by (simp add: block_defs ex_defs prim_defs Let_def)
  have c: "quirks_init pc_header amd_board clawhammer_cpu 0 boot =
      boot\<lparr>quirk := \<lparr>q_id = QUIRK_K8_BSTEP_NOTEMP, q_type = 0x80, root_vid = 0x1022,
                       root_did = 0x1100, process = Some FN_disable_temp_reporting\<rparr>,
           trace := [PciRead16 0 0 0 0x00, PciRead16 0 0 0 0x02]\<rparr>"
    by (simp add: block_defs ex_defs prim_defs Let_def)
  have d: "quirks_init pc_header amd_board rev_g_cpu 0 boot =
      boot\<lparr>quirk := \<lparr>q_id = QUIRK_K8_REVFG_TEMP, q_type = 0x80, root_vid = 0x1022,
                       root_did = 0x1100, process = Some FN_amd_k8_revfg_temp\<rparr>,
           trace := [PciRead16 0 0 0 0x00, PciRead16 0 0 0 0x02]\<rparr>"
    by (simp add: block_defs ex_defs prim_defs Let_def)
  have e: "quirks_init pc_header amd_board k10_cpu 0 boot =
      boot\<lparr>quirk := \<lparr>q_id = QUIRK_AMD_ERRATA_319, q_type = 0x80, root_vid = 0x1022,
                       root_did = 0x1100, process = Some FN_disable_temp_reporting\<rparr>,
           trace := [PciRead16 0 0 0 0x00, PciRead16 0 0 0 0x02, PciRead32 0 24 2 0x94]\<rparr>"
    by (simp add: block_defs ex_defs prim_defs Let_def)
  have f: "quirks_init pc_header adl_n_board intel_cpu 1 boot =
      boot\<lparr>quirk := \<lparr>q_id = QUIRK_ADL_SMB_UNLOCK, q_type = 0x10, root_vid = 0x8086,
                       root_did = 0x461C, process = Some FN_adl_unlock_smbus\<rparr>,
           trace := [PciRead16 0 0 0 0x00, PciRead16 0 0 0 0x02, PciRead16 0 31 4 0x2]\<rparr>"
    by (simp add: block_defs ex_defs prim_defs Let_def)
  have a': "l2_cache (call pc_header ali_board intel_cpu FN_get_m1541_l2_cache_size
        (quirks_init pc_header ali_board intel_cpu 0 boot)) = 512"
    unfolding a by (simp add: get_m1541_l2_cache_size_def ex_defs prim_defs Let_def)
  have b': "trace (call pc_header tusl2_board intel_cpu FN_asus_tusl2_configure_mux
        (quirks_init pc_header tusl2_board intel_cpu 0 boot)) \<noteq>
        trace (quirks_init pc_header tusl2_board intel_cpu 0 boot)"
    unfolding b by (simp add: asus_tusl2_configure_mux_def ex_defs prim_defs Let_def)
  have c': "\<not> enable_temperature (call pc_header amd_board clawhammer_cpu FN_disable_temp_reporting
        (quirks_init pc_header amd_board clawhammer_cpu 0 boot))"
    by (simp add: disable_temp_reporting_def)
  have d': "trace (call pc_header amd_board rev_g_cpu FN_amd_k8_revfg_temp
        (quirks_init pc_header amd_board rev_g_cpu 0 boot)) =
      [PciRead16 0 0 0 0x00, PciRead16 0 0 0 0x02,
       PciRead32 0 24 3 0xE4, PciWrite8 0 24 3 0xE4 0x04]"
    unfolding d by (simp add: amd_k8_revfg_temp_def ex_defs prim_defs Let_def)
  have e': "\<not> enable_temperature (call pc_header amd_board k10_cpu FN_disable_temp_reporting
        (quirks_init pc_header amd_board k10_cpu 0 boot))"
    by (simp add: disable_temp_reporting_def)
  have f': "trace (call pc_header adl_n_board intel_cpu FN_adl_unlock_smbus
        (quirks_init pc_header adl_n_board intel_cpu 1 boot)) =
      [PciRead16 0 0 0 0x00, PciRead16 0 0 0 0x02, PciRead16 0 31 4 0x2,
       PciRead16 0 31 4 0x04, PciWrite16 0 31 4 0x04 0x0003]"
    unfolding f by (simp add: adl_unlock_smbus_def ex_defs prim_defs Let_def)
  have a'': "l2_cache (quirks_init pc_header ali_board intel_cpu 0 boot) = 0"
    unfolding a by (simp add: boot_def)
  have c'': "enable_temperature (quirks_init pc_header amd_board clawhammer_cpu 0 boot)"
    unfolding c by (simp add: boot_def)
  have e'': "enable_temperature (quirks_init pc_header amd_board k10_cpu 0 boot)"
    unfolding e by (simp add: boot_def)
  from a' a'' have na: "call pc_header ali_board intel_cpu FN_get_m1541_l2_cache_size
        (quirks_init pc_header ali_board intel_cpu 0 boot) \<noteq>
      quirks_init pc_header ali_board intel_cpu 0 boot" by auto
  from b' have nb: "call pc_header tusl2_board intel_cpu FN_asus_tusl2_configure_mux
        (quirks_init pc_header tusl2_board intel_cpu 0 boot) \<noteq>
      quirks_init pc_header tusl2_board intel_cpu 0 boot" by auto
  from c' c'' have nc: "call pc_header amd_board clawhammer_cpu FN_disable_temp_reporting
        (quirks_init pc_header amd_board clawhammer_cpu 0 boot) \<noteq>
      quirks_init pc_header amd_board clawhammer_cpu 0 boot" by auto
  from e' e'' have ne: "call pc_header amd_board k10_cpu FN_disable_temp_reporting
        (quirks_init pc_header amd_board k10_cpu 0 boot) \<noteq>
      quirks_init pc_header amd_board k10_cpu 0 boot" by auto
  from a na b nb c nc d d' e ne f f' show ?thesis by blast
qed

text \<open>
  C4, amended.  \<open>quirks_init\<close> runs no corrective action for any rule: it changes none of
  \<open>l2_cache\<close>, \<open>enable_temperature\<close> and \<open>cpu_temp_offset\<close>, every event it adds is a
  read of configuration space, and the action of a matching rule is only stored in the
  record (that of the last matching rule, NULL when none matches).
\<close>

theorem quirks_init_stores_only:
  "l2_cache (quirks_init K hw cpu imc s) = l2_cache s \<and>
   enable_temperature (quirks_init K hw cpu imc s) = enable_temperature s \<and>
   cpu_temp_offset (quirks_init K hw cpu imc s) = cpu_temp_offset s \<and>
   (\<exists>evs. trace (quirks_init K hw cpu imc s) = trace s @ evs \<and> list_all is_config_read evs) \<and>
   process (quirk (quirks_init K hw cpu imc s)) =
     last (None # map rule_action (matching K hw cpu imc))"
  using quirks_init_reads [of s K hw cpu imc]
  by (simp add: reads_only_def quirks_init_matching apply_rules_process quirk0_def)

text \<open>
  C5.  When no rule matches, the identifier is \<open>QUIRK_NONE\<close>, the domain mask is
  \<open>QUIRK_TYPE_NONE\<close> and the action is NULL.
\<close>

theorem quirks_init_no_match:
  assumes "matching K hw cpu imc = []"
  shows "q_id (quirk (quirks_init K hw cpu imc s)) = QUIRK_NONE
       \<and> q_type (quirk (quirks_init K hw cpu imc s)) = QUIRK_TYPE_NONE K
       \<and> process (quirk (quirks_init K hw cpu imc s)) = None"
  using assms by (simp add: quirks_init_matching quirk0_def)

theorem quirks_init_no_match_witness:
  "matching pc_header (platform [] [] []) intel_cpu 0 = [] \<and>
   q_id (quirk (quirks_init pc_header (platform [] [] []) intel_cpu 0 boot)) = QUIRK_NONE \<and>
   q_type (quirk (quirks_init pc_header (platform [] [] []) intel_cpu 0 boot)) = 0 \<and>
   process (quirk (quirks_init pc_header (platform [] [] []) intel_cpu 0 boot)) = None"
proof -
  have m: "matching pc_header (platform [] [] []) intel_cpu 0 = []"
    by (simp add: match_defs ex_defs)
  show ?thesis
    using quirks_init_no_match [OF m, of boot] by (simp add: m pc_header_types)
qed

text \<open>
  C6.  \<open>asus_tusl2_configure_mux\<close> does exactly this, in this order, and nothing else:
  0x87 to port 0x2E twice, a delay of 200 microseconds, the LPC write of 0x7 and 0x8, the
  LPC read of 0xF1, the LPC write to 0xF1 of the value read with bits 4 and 3 cleared and
  bit 4 set, a delay of 200 microseconds, 0xAA to port 0x2E.
\<close>

theorem asus_tusl2_configure_mux_sequence:
  "asus_tusl2_configure_mux hw s =
     s\<lparr>trace := trace s @
        [Outb 0x87 0x2E, Outb 0x87 0x2E, Usleep 200,
         LpcOutb 0x7 0x8, LpcInb 0xF1,
         LpcOutb 0xF1 ((lpc_reg hw 0xF1 AND NOT 0x18) OR 0x10),
         Usleep 200, Outb 0xAA 0x2E]\<rparr>"
  unfolding mux_mask [symmetric]
  by (simp add: asus_tusl2_configure_mux_def prim_defs Let_def)

text \<open>
  C7.  When \<open>get_m1541_l2_cache_size\<close> goes on to read the size register (no size cached
  yet, bit 0 of register 0x42 set), the code in bits 3 and 2 of register 0x41 gives the
  size: 0 gives 256, 1 gives 512, 2 gives 1024, and 3 leaves \<open>l2_cache\<close> as it was.
\<close>

theorem get_m1541_l2_cache_size_codes:
  assumes "l2_cache s = 0" and "cfg8 hw 0 0 0 0x42 AND 1 \<noteq> 0"
  shows "(drop_bit 2 (cfg8 hw 0 0 0 0x41) AND 3 = 0 \<longrightarrow>
            l2_cache (get_m1541_l2_cache_size hw s) = 256) \<and>
         (drop_bit 2 (cfg8 hw 0 0 0 0x41) AND 3 = 1 \<longrightarrow>
            l2_cache (get_m1541_l2_cache_size hw s) = 512) \<and>
         (drop_bit 2 (cfg8 hw 0 0 0 0x41) AND 3 = 2 \<longrightarrow>
            l2_cache (get_m1541_l2_cache_size hw s) = 1024) \<and>
         (drop_bit 2 (cfg8 hw 0 0 0 0x41) AND 3 = 3 \<longrightarrow>
            l2_cache (get_m1541_l2_cache_size hw s) = l2_cache s) \<and>
         trace (get_m1541_l2_cache_size hw s) =
           trace s @ [PciRead8 0 0 0 0x42, PciRead8 0 0 0 0x41]"
  using assms
  by (simp add: get_m1541_l2_cache_size_def prim_defs Let_def)

theorem get_m1541_l2_cache_size_codes_witness:
  "l2_cache (get_m1541_l2_cache_size
      (platform [((0, 0, 0, 0x42), 0x01), ((0, 0, 0, 0x41), 0xF3)] [] []) boot) = 256 \<and>
   l2_cache (get_m1541_l2_cache_size
      (platform [((0, 0, 0, 0x42), 0x01), ((0, 0, 0, 0x41), 0x04)] [] []) boot) = 512 \<and>
   l2_cache (get_m1541_l2_cache_size
      (platform [((0, 0, 0, 0x42), 0x01), ((0, 0, 0, 0x41), 0x08)] [] []) boot) = 1024 \<and>
   l2_cache (get_m1541_l2_cache_size
      (platform [((0, 0, 0, 0x42), 0x01), ((0, 0, 0, 0x41), 0x0C)] [] []) boot) = 0"
proof -
  have s: "l2_cache boot = 0" by (simp add: boot_def)
  have en: "cfg8 (platform [((0, 0, 0, 0x42), 0x01), ((0, 0, 0, 0x41), v)] [] []) 0 0 0 0x42
              AND 1 \<noteq> 0" for v
    by (simp add: platform_def)
  have r: "cfg8 (platform [((0, 0, 0, 0x42), 0x01), ((0, 0, 0, 0x41), v)] [] []) 0 0 0 0x41 = v"
    for v by (simp add: platform_def)
  have c: "drop_bit 2 (0xF3 :: 8 word) AND 3 = 0" "drop_bit 2 (0x04 :: 8 word) AND 3 = 1"
    "drop_bit 2 (0x08 :: 8 word) AND 3 = 2" "drop_bit 2 (0x0C :: 8 word) AND 3 = 3"
    by code_simp+
  show ?thesis
    using get_m1541_l2_cache_size_codes [OF s en [of "0xF3"]]
      get_m1541_l2_cache_size_codes [OF s en [of "0x04"]]
      get_m1541_l2_cache_size_codes [OF s en [of "0x08"]]
      get_m1541_l2_cache_size_codes [OF s en [of "0x0C"]]
    by (simp add: r c s)
qed

text \<open>
  C8.  With a size already cached, \<open>get_m1541_l2_cache_size\<close> changes nothing: no event,
  same \<open>l2_cache\<close>.  So a second call right after a call that found a size is the same
  as the first call alone.
\<close>

theorem get_m1541_l2_cache_size_idempotent:
  "(l2_cache s \<noteq> 0 \<longrightarrow>
      get_m1541_l2_cache_size hw s = s \<and>
      trace (get_m1541_l2_cache_size hw s) = trace s \<and>
      l2_cache (get_m1541_l2_cache_size hw s) = l2_cache s) \<and>
   (l2_cache (get_m1541_l2_cache_size hw s) \<noteq> 0 \<longrightarrow>
      get_m1541_l2_cache_size hw (get_m1541_l2_cache_size hw s) = get_m1541_l2_cache_size hw s)"
  by (simp add: get_m1541_l2_cache_size_def)

theorem get_m1541_l2_cache_size_idempotent_witness:
  "l2_cache (boot\<lparr>l2_cache := 512\<rparr>) \<noteq> 0 \<and>
   get_m1541_l2_cache_size ali_board (boot\<lparr>l2_cache := 512\<rparr>) = boot\<lparr>l2_cache := 512\<rparr> \<and>
   l2_cache (get_m1541_l2_cache_size ali_board boot) \<noteq> 0 \<and>
   get_m1541_l2_cache_size ali_board (get_m1541_l2_cache_size ali_board boot) =
     get_m1541_l2_cache_size ali_board boot"
proof -
  have a: "l2_cache (boot\<lparr>l2_cache := 512\<rparr>) \<noteq> 0" by simp
  have b: "l2_cache (get_m1541_l2_cache_size ali_board boot) \<noteq> 0"
    by (simp add: get_m1541_l2_cache_size_def ex_defs prim_defs Let_def)
  show ?thesis
    using get_m1541_l2_cache_size_idempotent [of "boot\<lparr>l2_cache := 512\<rparr>" ali_board]
      get_m1541_l2_cache_size_idempotent [of boot ali_board] a b
    by simp
qed

text \<open>
  C9.  \<open>adl_unlock_smbus\<close> reads the 16-bit register once; it writes (the value read with
  bit 0 set) exactly when bit 0 of the value read is clear, and writes nothing when the
  bit is set.
\<close>

theorem adl_unlock_smbus_idempotent:
  "(bit (cfg16 hw 0 31 4 0x04) 0 \<longrightarrow>
      adl_unlock_smbus hw s = s\<lparr>trace := trace s @ [PciRead16 0 31 4 0x04]\<rparr>) \<and>
   (\<not> bit (cfg16 hw 0 31 4 0x04) 0 \<longrightarrow>
      adl_unlock_smbus hw s = s\<lparr>trace := trace s @
        [PciRead16 0 31 4 0x04, PciWrite16 0 31 4 0x04 (cfg16 hw 0 31 4 0x04 OR 1)]\<rparr>)"
  by (simp add: adl_unlock_smbus_def prim_defs Let_def bit0_clear)

theorem adl_unlock_smbus_idempotent_witness:
  "bit (cfg16 (platform [] [((0, 31, 4, 0x04), 0x0003)] []) 0 31 4 0x04) 0 \<and>
   trace (adl_unlock_smbus (platform [] [((0, 31, 4, 0x04), 0x0003)] []) boot) =
     [PciRead16 0 31 4 0x04] \<and>
   \<not> bit (cfg16 adl_n_board 0 31 4 0x04) 0 \<and>
   trace (adl_unlock_smbus adl_n_board boot) =
     [PciRead16 0 31 4 0x04, PciWrite16 0 31 4 0x04 0x0003]"
proof -
  have a: "cfg16 (platform [] [((0, 31, 4, 0x04), 0x0003)] []) 0 31 4 0x04 = 0x0003"
    by (simp add: platform_def)
  have b: "cfg16 adl_n_board 0 31 4 0x04 = 0x0002"
    by (simp add: adl_n_board_def platform_def)
  have c: "bit (0x0003 :: 16 word) 0" "\<not> bit (0x0002 :: 16 word) 0" "(0x0002 :: 16 word) OR 1 = 0x0003"
    by (simp_all add: bit_0)
  show ?thesis
    using adl_unlock_smbus_idempotent [of "platform [] [((0, 31, 4, 0x04), 0x0003)] []" boot]
      adl_unlock_smbus_idempotent [of adl_n_board boot]
    by (simp add: a b c boot_def)
qed

text \<open>
  C10.  After \<open>quirks_init\<close> the action is NULL exactly when the identifier is
  \<open>QUIRK_NONE\<close> or \<open>QUIRK_X10SDV_NOSMP\<close>, and an action that is not NULL comes with the
  identifier of a matching rule that has this action.
\<close>

theorem quirks_init_action_null_iff:
  "(process (quirk (quirks_init K hw cpu imc s)) = None \<longleftrightarrow>
      q_id (quirk (quirks_init K hw cpu imc s)) = QUIRK_NONE \<or>
      q_id (quirk (quirks_init K hw cpu imc s)) = QUIRK_X10SDV_NOSMP)
   \<and> (\<forall>a. process (quirk (quirks_init K hw cpu imc s)) = Some a \<longrightarrow>
         (\<exists>r. trigger K hw cpu imc r \<and> rule_id r = q_id (quirk (quirks_init K hw cpu imc s))
              \<and> rule_action r = Some a))"
proof (cases "matching K hw cpu imc = []")
  case True
  then show ?thesis by (simp add: quirks_init_matching quirk0_def)
next
  case False
  let ?r = "last (matching K hw cpu imc)"
  have "?r \<in> set (matching K hw cpu imc)" using False by simp
  then have t: "trigger K hw cpu imc ?r" by (simp add: matching_def)
  have l: "q_id (quirk (quirks_init K hw cpu imc s)) = rule_id ?r"
    "process (quirk (quirks_init K hw cpu imc s)) = rule_action ?r"
    using apply_rules_last [OF False, of K "quirk0 K hw"] by (simp_all add: quirks_init_matching)
  have "(rule_action ?r = None) = (rule_id ?r = QUIRK_NONE \<or> rule_id ?r = QUIRK_X10SDV_NOSMP)"
    by (cases ?r) simp_all
  with t l show ?thesis by auto
qed

theorem quirks_init_action_null_iff_witness:
  "process (quirk (quirks_init pc_header ali_board clawhammer_cpu 0 boot)) =
     Some FN_disable_temp_reporting \<and>
   (\<exists>r. trigger pc_header ali_board clawhammer_cpu 0 r \<and>
        rule_id r = q_id (quirk (quirks_init pc_header ali_board clawhammer_cpu 0 boot)) \<and>
        rule_action r = Some FN_disable_temp_reporting) \<and>
   process (quirk (quirks_init pc_header x10sdv_board intel_cpu 0 boot)) = None \<and>
   q_id (quirk (quirks_init pc_header x10sdv_board intel_cpu 0 boot)) = QUIRK_X10SDV_NOSMP"
proof -
  have p: "process (quirk (quirks_init pc_header ali_board clawhammer_cpu 0 boot)) =
     Some FN_disable_temp_reporting"
    by (simp add: quirks_init_matching match_defs ex_defs apply_rule_def)
  have q: "process (quirk (quirks_init pc_header x10sdv_board intel_cpu 0 boot)) = None"
    by (simp add: quirks_init_matching match_defs ex_defs apply_rule_def)
  show ?thesis
    using quirks_init_action_null_iff [of pc_header ali_board clawhammer_cpu 0 boot]
      quirks_init_action_null_iff [of pc_header x10sdv_board intel_cpu 0 boot] p q
    by (simp add: quirks_init_matching match_defs ex_defs apply_rule_def)
qed

end
